theory Spec2Isabelle
  imports Complex_Main
begin

section \<open>Python values used by the program\<close>

text \<open>
  A Python \<open>str\<close> is a sequence of Unicode code points, and \<open>len\<close> counts code points,
  so a string is modelled as a list of code-point numbers. \<open>py\<close> turns an ASCII
  literal into such a string.
\<close>

type_synonym pystr = "nat list"

definition py :: "string \<Rightarrow> pystr" where
  "py s = map of_char s"

text \<open>
  \<open>str.isspace\<close> for one code point: the characters CPython classifies as whitespace
  (tab to carriage return, the four separators 0x1C..0x1F, space, NEL, no-break
  space, and the Unicode space separators up to the ideographic space).
\<close>

definition isspace :: "nat \<Rightarrow> bool" where
  "isspace c \<longleftrightarrow>
     (9 \<le> c \<and> c \<le> 13) \<or> (28 \<le> c \<and> c \<le> 32) \<or> c = 133 \<or> c = 160 \<or> c = 5760 \<or>
     (8192 \<le> c \<and> c \<le> 8202) \<or> c = 8232 \<or> c = 8233 \<or> c = 8239 \<or> c = 8287 \<or> c = 12288"

text \<open>\<open>s.strip()\<close>: whitespace removed from both ends.\<close>

definition strip :: "pystr \<Rightarrow> pystr" where
  "strip s = rev (dropWhile isspace (rev (dropWhile isspace s)))"

text \<open>\<open>sep.join(xs)\<close>.\<close>

fun join :: "pystr \<Rightarrow> pystr list \<Rightarrow> pystr" where
  "join sep [] = []"
| "join sep [x] = x"
| "join sep (x # y # ys) = x @ sep @ join sep (y # ys)"

text \<open>\<open>range(a, b)\<close> over Python integers: \<open>a, a + 1, ..., b - 1\<close>, empty when \<open>b \<le> a\<close>.\<close>

definition py_range :: "int \<Rightarrow> int \<Rightarrow> int list" where
  "py_range a b = [a..b - 1]"

section \<open>Exceptions\<close>

text \<open>
  The program raises three \<open>ValueError\<close>s of its own; their messages are formatted
  strings, modelled by what they report: the page-range message reports the total
  page count (pdf2tts.py line 31), the size message the limit 50000 and the actual
  length (lines 64-67). \<open>LibraryMessage\<close> is the text of a \<open>ValueError\<close> (or of one
  of its subclasses) raised by a library the program calls.

  The service tells exceptions apart by class only (\<open>except ValueError\<close>, then
  \<open>except Exception\<close>), so an exception is a \<open>ValueError\<close>, the \<open>KeyError\<close> of a failed
  enum lookup, the \<open>IndexError\<close> of a page index out of range, or any other
  \<open>Exception\<close>.
\<close>

datatype message =
    PageRangeInvalid int
  | NoTextExtracted
  | TextTooLong int int
  | LibraryMessage pystr

datatype exn =
    ValueError message
  | KeyError pystr
  | IndexError
  | OtherException pystr

fun is_ValueError :: "exn \<Rightarrow> bool" where
  "is_ValueError (ValueError m) = True"
| "is_ValueError e = False"

text \<open>
  What a library call can fail with, as far as the program can tell: an exception
  that is a \<open>ValueError\<close>, or one that is not. \<open>raised\<close> is that exception arriving in
  the program.
\<close>

datatype lib_error =
    LibValueError pystr
  | LibOtherError pystr

fun raised :: "lib_error \<Rightarrow> exn" where
  "raised (LibValueError s) = ValueError (LibraryMessage s)"
| "raised (LibOtherError s) = OtherException s"

section \<open>The document library and the synthesis engine\<close>

text \<open>
  A document, as \<open>pymupdf\<close> presents it: for each page in order, what
  \<open>page.get_text("text")\<close> gives, a text or an exception.
\<close>

record document =
  page_texts :: "(lib_error + pystr) list"

definition page_count :: "document \<Rightarrow> int" where
  "page_count doc = int (length (page_texts doc))"

text \<open>
  \<open>doc[i].get_text("text")\<close>. After the range check of \<open>extract_text_from_pdf\<close> the
  index is always within \<open>0 .. page_count - 1\<close>; outside it the model raises
  \<open>IndexError\<close>.
\<close>

definition get_text :: "document \<Rightarrow> int \<Rightarrow> exn + pystr" where
  "get_text doc i =
     (if 0 \<le> i \<and> i < page_count doc
      then (case page_texts doc ! nat i of Inl e \<Rightarrow> Inl (raised e) | Inr t \<Rightarrow> Inr t)
      else Inl IndexError)"

datatype audio_format = MP3

record synthesis_request =
  req_text :: pystr
  req_voice :: pystr
  req_response_format :: audio_format
  req_speed :: real
  req_max_length :: int
  req_preserve_words :: bool
  req_auto_combine :: bool

type_synonym bytes = "nat list"

section \<open>Paths (\<open>pathlib\<close>, POSIX flavour)\<close>

text \<open>
  A pure path is its root (\<open>""\<close>, \<open>"/"\<close> or \<open>"//"\<close>) and its components. Parsing
  splits at \<open>/\<close> and drops empty and \<open>.\<close> components; \<open>..\<close> is kept.
\<close>

record path =
  root :: pystr
  parts :: "pystr list"

definition slash :: nat where
  "slash = 47"

definition dot :: nat where
  "dot = 46"

text \<open>\<open>s.split("/")\<close>: always at least one piece.\<close>

fun split_slash :: "pystr \<Rightarrow> pystr list" where
  "split_slash [] = [[]]"
| "split_slash (c # cs) =
     (if c = slash then [] # split_slash cs
      else (case split_slash cs of
              [] \<Rightarrow> [[c]]
            | p # ps \<Rightarrow> (c # p) # ps))"

text \<open>\<open>posixpath.splitroot\<close>, without the drive (always empty on POSIX).\<close>

definition splitroot :: "pystr \<Rightarrow> pystr \<times> pystr" where
  "splitroot p =
     (if take 1 p \<noteq> [slash] then ([], p)
      else if take 1 (drop 1 p) \<noteq> [slash] \<or> take 1 (drop 2 p) = [slash]
           then ([slash], drop 1 p)
      else ([slash, slash], drop 2 p))"

definition parse_path :: "pystr \<Rightarrow> path" where
  "parse_path s =
     (let (rt, rel) = splitroot s
      in \<lparr>root = rt, parts = filter (\<lambda>x. x \<noteq> [] \<and> x \<noteq> [dot]) (split_slash rel)\<rparr>)"

text \<open>\<open>str(p)\<close>.\<close>

definition path_str :: "path \<Rightarrow> pystr" where
  "path_str p =
     (if root p = [] \<and> parts p = [] then [dot] else root p @ join [slash] (parts p))"

text \<open>\<open>p.name\<close>: the final component, the empty string when there is none.\<close>

definition path_name :: "path \<Rightarrow> pystr" where
  "path_name p = (if parts p = [] then [] else last (parts p))"

text \<open>\<open>s.rfind(".")\<close>: the index of the last dot, \<open>-1\<close> when there is none.\<close>

fun rfind_dot :: "pystr \<Rightarrow> int" where
  "rfind_dot [] = - 1"
| "rfind_dot (c # cs) =
     (let r = rfind_dot cs
      in if r \<ge> 0 then r + 1 else if c = dot then 0 else - 1)"

text \<open>\<open>p.stem\<close>: the name without its last suffix.\<close>

definition path_stem :: "path \<Rightarrow> pystr" where
  "path_stem p =
     (let name = path_name p; i = rfind_dot name
      in if 0 < i \<and> i < int (length name) - 1 then take (nat i) name else name)"

text \<open>
  \<open>p / s\<close> for a string \<open>s\<close>: an absolute \<open>s\<close> replaces \<open>p\<close>, a relative one
  appends its components.
\<close>

definition joinpath :: "path \<Rightarrow> pystr \<Rightarrow> path" where
  "joinpath p s =
     (let q = parse_path s
      in if root q \<noteq> [] then q else p\<lparr>parts := parts p @ parts q\<rparr>)"

section \<open>The world outside the program\<close>

text \<open>
  What the libraries and the operating system answer is the input of the model:
  \<^item> \<open>pymupdf_open\<close>: \<open>pymupdf.open(path)\<close>, a document or an exception;
  \<^item> \<open>str_upper\<close>: \<open>str.upper\<close>;
  \<^item> \<open>voice_member\<close>: the members of the \<open>Voice\<close> enumeration of \<open>ttsfm\<close>, by name;
  \<^item> \<open>generate_speech_long_text\<close>: the synthesis engine, audio or an exception;
  \<^item> \<open>save_to_file\<close>: writing the audio, \<open>None\<close> on success;
  \<^item> \<open>mkdtemp\<close>: \<open>tempfile.mkdtemp(prefix="pdf2tts_")\<close>, the new directory or an
    exception;
  \<^item> \<open>write_bytes\<close>: \<open>Path.write_bytes\<close>, \<open>None\<close> on success;
  \<^item> \<open>file_sent\<close>: whether the web framework sends the file at this path to the
    caller in full (it gives up when the file is missing, when the request carries a
    \<open>Range\<close> header it refuses, or when the caller goes away).
\<close>

record world =
  pymupdf_open :: "pystr \<Rightarrow> lib_error + document"
  str_upper :: "pystr \<Rightarrow> pystr"
  voice_member :: "pystr \<Rightarrow> pystr option"
  generate_speech_long_text :: "synthesis_request \<Rightarrow> lib_error + bytes"
  save_to_file :: "bytes \<Rightarrow> pystr \<Rightarrow> lib_error option"
  mkdtemp :: "lib_error + pystr"
  write_bytes :: "path \<Rightarrow> bytes \<Rightarrow> lib_error option"
  file_sent :: "pystr \<Rightarrow> bool"

text \<open>
  The effects of a run, in the order they happen. \<open>DocOpen\<close> is recorded when
  \<open>pymupdf.open\<close> has returned a handle, \<open>Mkdtemp\<close> when the directory has been
  created; \<open>SendError\<close> is an error response leaving the server, \<open>SendFile\<close> a file
  sent in full, \<open>SendFailed\<close> a file response the framework gave up; \<open>OtherTaskRun\<close>
  is a background task that is not of this program, with whether it succeeded.
\<close>

datatype event =
    DocOpen pystr
  | GetText int
  | DocClose
  | GenerateSpeech synthesis_request
  | SaveToFile pystr
  | Mkdtemp pystr
  | ReadUpload
  | WriteBytes path
  | Rmtree path
  | SendError nat
  | SendFile pystr
  | SendFailed pystr
  | OtherTaskRun bool

section \<open>pdf2tts.py\<close>

subsection \<open>\<open>extract_text_from_pdf\<close>\<close>

text \<open>
  Lines 26 and 27: \<open>sp = start_page - 1 if start_page else 0\<close> and
  \<open>ep = end_page if end_page else total_pages\<close>. The conditions test the truth value
  of an optional integer: \<open>None\<close> and \<open>0\<close> are both false.
\<close>

definition sp_of :: "int option \<Rightarrow> int" where
  "sp_of start_page =
     (case start_page of None \<Rightarrow> 0 | Some s \<Rightarrow> if s \<noteq> 0 then s - 1 else 0)"

definition ep_of :: "int option \<Rightarrow> int \<Rightarrow> int" where
  "ep_of end_page total_pages =
     (case end_page of None \<Rightarrow> total_pages | Some e \<Rightarrow> if e \<noteq> 0 then e else total_pages)"

text \<open>Line 29: the condition under which the range is refused.\<close>

definition range_invalid :: "int \<Rightarrow> int \<Rightarrow> int \<Rightarrow> bool" where
  "range_invalid sp ep total_pages \<longleftrightarrow>
     sp < 0 \<or> sp \<ge> total_pages \<or> ep < 1 \<or> ep > total_pages \<or> sp \<ge> ep"

text \<open>
  Lines 33 to 35: the loop over the page indices, appending each page's text to
  \<open>texts\<close>. An exception from a page leaves the loop at once.
\<close>

fun extract_pages ::
  "document \<Rightarrow> int list \<Rightarrow> pystr list \<Rightarrow> event list \<times> (exn + pystr list)" where
  "extract_pages doc [] texts = ([], Inr texts)"
| "extract_pages doc (i # rest) texts =
     (case get_text doc i of
        Inl e \<Rightarrow> ([GetText i], Inl e)
      | Inr t \<Rightarrow>
          (case extract_pages doc rest (texts @ [t]) of
             (evs, r) \<Rightarrow> (GetText i # evs, r)))"

definition page_separator :: pystr where
  "page_separator = [10, 10]"

definition extract_text_from_pdf ::
  "world \<Rightarrow> pystr \<Rightarrow> int option \<Rightarrow> int option \<Rightarrow> event list \<times> (exn + pystr)" where
  "extract_text_from_pdf w pdf_path start_page end_page =
     (case pymupdf_open w pdf_path of
        Inl e \<Rightarrow> ([], Inl (raised e))
      | Inr doc \<Rightarrow>
          (let total_pages = page_count doc;
               sp = sp_of start_page;
               ep = ep_of end_page total_pages
           in if range_invalid sp ep total_pages
              then ([DocOpen pdf_path, DocClose],
                    Inl (ValueError (PageRangeInvalid total_pages)))
              else (case extract_pages doc (py_range sp ep) [] of
                      (evs, Inl e) \<Rightarrow> (DocOpen pdf_path # evs, Inl e)
                    | (evs, Inr texts) \<Rightarrow>
                        (DocOpen pdf_path # evs @ [DocClose],
                         Inr (join page_separator texts)))))"

text \<open>The number of document handles a run has opened and not closed.\<close>

fun open_handles :: "event list \<Rightarrow> int" where
  "open_handles [] = 0"
| "open_handles (DocOpen p # evs) = open_handles evs + 1"
| "open_handles (DocClose # evs) = open_handles evs - 1"
| "open_handles (ev # evs) = open_handles evs"

subsection \<open>\<open>pdf_to_mp3_with_ttsfm\<close>\<close>

text \<open>
  Lines 69 to 89, the part of the function after the two checks of the text: the
  call of the engine and the saving of the audio. The argument
  \<open>Voice[voice.upper()]\<close> is evaluated before the engine is called, and a name that
  is no member raises \<open>KeyError\<close>. The timestamps printed along the way are left
  out.
\<close>

definition generate_and_save ::
  "world \<Rightarrow> pystr \<Rightarrow> pystr \<Rightarrow> pystr \<Rightarrow> real \<Rightarrow> int \<Rightarrow> event list \<times> (exn + unit)" where
  "generate_and_save w full_text mp3_path voice speed max_length =
     (case voice_member w (str_upper w voice) of
        None \<Rightarrow> ([], Inl (KeyError (str_upper w voice)))
      | Some v \<Rightarrow>
          (let req = \<lparr>req_text = full_text, req_voice = v,
                      req_response_format = MP3, req_speed = speed,
                      req_max_length = max_length,
                      req_preserve_words = True, req_auto_combine = True\<rparr>
           in case generate_speech_long_text w req of
                Inl e \<Rightarrow> ([GenerateSpeech req], Inl (raised e))
              | Inr resp \<Rightarrow>
                  (let out_path = path_str (parse_path mp3_path)
                   in case save_to_file w resp out_path of
                        Some e \<Rightarrow> ([GenerateSpeech req, SaveToFile out_path], Inl (raised e))
                      | None \<Rightarrow> ([GenerateSpeech req, SaveToFile out_path], Inr ()))))"

text \<open>The whole function: extraction, the two checks (lines 59 to 67), the engine.\<close>

definition pdf_to_mp3_with_ttsfm ::
  "world \<Rightarrow> pystr \<Rightarrow> pystr \<Rightarrow> pystr \<Rightarrow> real \<Rightarrow> int \<Rightarrow> int option \<Rightarrow> int option
     \<Rightarrow> event list \<times> (exn + unit)" where
  "pdf_to_mp3_with_ttsfm w pdf_path mp3_path voice speed max_length start_page end_page =
     (case extract_text_from_pdf w pdf_path start_page end_page of
        (evs, Inl e) \<Rightarrow> (evs, Inl e)
      | (evs, Inr full_text) \<Rightarrow>
          if strip full_text = [] then (evs, Inl (ValueError NoTextExtracted))
          else
            (let text_length = int (length full_text)
             in if text_length > 50000
                then (evs, Inl (ValueError (TextTooLong 50000 text_length)))
                else
                  (case generate_and_save w full_text mp3_path voice speed max_length of
                     (evs', r) \<Rightarrow> (evs @ evs', r))))"

section \<open>service.py\<close>

record upload_file =
  content_type :: "pystr option"
  filename :: "pystr option"
  read_result :: "lib_error + bytes"

text \<open>\<open>x or "input.pdf"\<close>: \<open>None\<close> and the empty string are both false.\<close>

definition filename_or_default :: "pystr option \<Rightarrow> pystr" where
  "filename_or_default fn =
     (case fn of None \<Rightarrow> py ''input.pdf''
      | Some s \<Rightarrow> if s = [] then py ''input.pdf'' else s)"

datatype detail =
    UnsupportedFileType
  | FailedToReadUpload
  | ExceptionText exn
  | FailedToGenerateAudio

text \<open>
  A background task: the call \<open>shutil.rmtree(temp_dir, ignore_errors=True)\<close> that
  line 60 registers, or a task that somebody else has put on the list handed to the
  handler, of which the model keeps only whether it succeeds.
\<close>

datatype task = RmtreeTask path | OtherTask bool

text \<open>
  What the handler hands back to the framework: an \<open>HTTPException\<close> with its status
  and detail, a \<open>FileResponse\<close> with its path, media type, download name and
  background tasks, or an exception that no handler caught.
\<close>

datatype outcome =
    HTTPException nat detail
  | FileResponse pystr pystr pystr "task list"
  | Uncaught exn

definition accepted_content_type :: "pystr option \<Rightarrow> bool" where
  "accepted_content_type ct \<longleftrightarrow>
     ct = Some (py ''application/pdf'') \<or> ct = Some (py ''application/octet-stream'') \<or> ct = None"

definition temp_dir_of :: "pystr \<Rightarrow> path" where
  "temp_dir_of d = parse_path d"

definition pdf_path_of :: "path \<Rightarrow> pystr option \<Rightarrow> path" where
  "pdf_path_of temp_dir fn = joinpath temp_dir (path_name (parse_path (filename_or_default fn)))"

definition mp3_path_of :: "path \<Rightarrow> path \<Rightarrow> path" where
  "mp3_path_of temp_dir pdf_path = joinpath temp_dir (path_stem pdf_path @ py ''.mp3'')"

definition convert_pdf ::
  "world \<Rightarrow> upload_file \<Rightarrow> pystr \<Rightarrow> real \<Rightarrow> int \<Rightarrow> int option \<Rightarrow> int option
     \<Rightarrow> task list option \<Rightarrow> event list \<times> outcome" where
  "convert_pdf w pdf voice speed max_length start_page end_page background_tasks =
     (if \<not> accepted_content_type (content_type pdf)
      then ([], HTTPException 400 UnsupportedFileType)
      else
        (let bg = (case background_tasks of None \<Rightarrow> [] | Some ts \<Rightarrow> ts)
         in case mkdtemp w of
              Inl e \<Rightarrow> ([], Uncaught (raised e))
            | Inr d \<Rightarrow>
                (let temp_dir = temp_dir_of d;
                     pdf_path = pdf_path_of temp_dir (filename pdf);
                     mp3_path = mp3_path_of temp_dir pdf_path
                 in case read_result pdf of
                      Inl e \<Rightarrow>
                        ([Mkdtemp d, ReadUpload, Rmtree temp_dir],
                         HTTPException 400 FailedToReadUpload)
                    | Inr pdf_bytes \<Rightarrow>
                        (case write_bytes w pdf_path pdf_bytes of
                           Some e \<Rightarrow>
                             ([Mkdtemp d, ReadUpload, WriteBytes pdf_path, Rmtree temp_dir],
                              HTTPException 400 FailedToReadUpload)
                         | None \<Rightarrow>
                             (case pdf_to_mp3_with_ttsfm w (path_str pdf_path) (path_str mp3_path)
                                     voice speed max_length start_page end_page of
                                (evs, Inl e) \<Rightarrow>
                                  if is_ValueError e
                                  then ([Mkdtemp d, ReadUpload, WriteBytes pdf_path] @ evs
                                          @ [Rmtree temp_dir],
                                        HTTPException 400 (ExceptionText e))
                                  else ([Mkdtemp d, ReadUpload, WriteBytes pdf_path] @ evs
                                          @ [Rmtree temp_dir],
                                        HTTPException 500 FailedToGenerateAudio)
                              | (evs, Inr u) \<Rightarrow>
                                  ([Mkdtemp d, ReadUpload, WriteBytes pdf_path] @ evs,
                                   FileResponse (path_str mp3_path) (py ''audio/mpeg'')
                                     (path_stem pdf_path @ py ''.mp3'')
                                     (bg @ [RmtreeTask temp_dir])))))))"

text \<open>
  Modelled from the spec: the web framework that calls the handler and delivers what
  it returns is not under src/ (the specification leaves the request and response
  plumbing out, section 1, and describes the deferred deletion as a
  background-task-after-response pattern, sections 4.4 and 9). An \<open>HTTPException\<close>
  becomes an error response with its status, an uncaught exception a 500 response.
  A \<open>FileResponse\<close> is sent first; its background tasks run only after the whole file
  has been sent, in the order of the list, and a task that fails ends the run of the
  list. When the framework does not send the file in full (\<open>file_sent\<close> is false), no
  background task runs.
\<close>

fun run_tasks :: "task list \<Rightarrow> event list" where
  "run_tasks [] = []"
| "run_tasks (RmtreeTask d # ts) = Rmtree d # run_tasks ts"
| "run_tasks (OtherTask ok # ts) = OtherTaskRun ok # (if ok then run_tasks ts else [])"

fun respond :: "world \<Rightarrow> outcome \<Rightarrow> event list" where
  "respond w (HTTPException status d) = [SendError status]"
| "respond w (FileResponse p media name bg) =
     (if file_sent w p then SendFile p # run_tasks bg else [SendFailed p])"
| "respond w (Uncaught e) = [SendError 500]"

definition handle_request ::
  "world \<Rightarrow> upload_file \<Rightarrow> pystr \<Rightarrow> real \<Rightarrow> int \<Rightarrow> int option \<Rightarrow> int option
     \<Rightarrow> task list option \<Rightarrow> event list" where
  "handle_request w pdf voice speed max_length start_page end_page background_tasks =
     (case convert_pdf w pdf voice speed max_length start_page end_page background_tasks of
        (evs, out) \<Rightarrow> evs @ respond w out)"

section \<open>Notions used to state the properties\<close>

text \<open>
  Pages are numbered from 1 in a request: \<open>page_text doc k\<close> is the text of page \<open>k\<close>,
  and \<open>page_readable doc k\<close> says that extracting it raises nothing.
\<close>

definition page_text :: "document \<Rightarrow> int \<Rightarrow> pystr" where
  "page_text doc k = (case page_texts doc ! nat (k - 1) of Inl e \<Rightarrow> [] | Inr t \<Rightarrow> t)"

definition page_readable :: "document \<Rightarrow> int \<Rightarrow> bool" where
  "page_readable doc k =
     (case page_texts doc ! nat (k - 1) of Inl e \<Rightarrow> False | Inr t \<Rightarrow> True)"

text \<open>
  The resolution of a requested page range as the specification words it (section
  3): a start page \<open>s\<close> stands for the zero-based bound \<open>s - 1\<close>, an end page
  \<open>e\<close> for the bound \<open>e\<close>, absent ones for \<open>0\<close> and the page count; the bounds
  are acceptable when \<open>0 \<le> sp < T\<close>, \<open>1 \<le> ep \<le> T\<close> and \<open>sp < ep\<close>.
\<close>

definition spec_sp :: "int option \<Rightarrow> int" where
  "spec_sp start = (case start of None \<Rightarrow> 0 | Some s \<Rightarrow> s - 1)"

definition spec_ep :: "int option \<Rightarrow> int \<Rightarrow> int" where
  "spec_ep end T = (case end of None \<Rightarrow> T | Some e \<Rightarrow> e)"

definition spec_bounds_ok :: "int \<Rightarrow> int \<Rightarrow> int \<Rightarrow> bool" where
  "spec_bounds_ok sp ep T \<longleftrightarrow> 0 \<le> sp \<and> sp < T \<and> 1 \<le> ep \<and> ep \<le> T \<and> sp < ep"

text \<open>Kinds of events.\<close>

fun is_engine_call :: "event \<Rightarrow> bool" where
  "is_engine_call (GenerateSpeech r) = True"
| "is_engine_call ev = False"

fun extraction_event :: "event \<Rightarrow> bool" where
  "extraction_event (DocOpen p) = True"
| "extraction_event (GetText i) = True"
| "extraction_event DocClose = True"
| "extraction_event ev = False"

fun pipeline_event :: "event \<Rightarrow> bool" where
  "pipeline_event (GenerateSpeech r) = True"
| "pipeline_event (SaveToFile p) = True"
| "pipeline_event ev = extraction_event ev"

fun is_mkdtemp :: "event \<Rightarrow> bool" where
  "is_mkdtemp (Mkdtemp d) = True"
| "is_mkdtemp ev = False"




text \<open>
  Example worlds. \<open>book_world\<close> holds a three-page document and libraries that
  succeed (its \<open>str.upper\<close> is the ASCII one, its only voice is \<open>ALLOY\<close>); the others differ in the document only: one whose second page cannot be
  read, one with a single page of a given text, and a scanned one whose pages hold
  no text or white space only.
\<close>

definition book :: document where
  "book = \<lparr>page_texts = [Inr (py ''one''), Inr (py ''two''), Inr (py ''three'')]\<rparr>"

definition ascii_upper :: "pystr \<Rightarrow> pystr" where
  "ascii_upper s = map (\<lambda>c. if 97 \<le> c \<and> c \<le> 122 then c - 32 else c) s"

definition world_with :: "document \<Rightarrow> world" where
  "world_with doc =
     \<lparr>pymupdf_open = (\<lambda>p. Inr doc),
      str_upper = ascii_upper,
      voice_member = (\<lambda>s. if s = py ''ALLOY'' then Some s else None),
      generate_speech_long_text = (\<lambda>r. Inr [73, 68, 51]),
      save_to_file = (\<lambda>a p. None),
      mkdtemp = Inr (py ''/tmp/pdf2tts_k3''),
      write_bytes = (\<lambda>p b. None),
      file_sent = (\<lambda>p. True)\<rparr>"

definition book_world :: world where
  "book_world = world_with book"

definition damaged_book :: document where
  "damaged_book = \<lparr>page_texts = [Inr (py ''one''), Inl (LibOtherError (py ''damaged page''))]\<rparr>"

definition damaged_world :: world where
  "damaged_world = world_with damaged_book"

definition one_page_world :: "pystr \<Rightarrow> world" where
  "one_page_world t = world_with \<lparr>page_texts = [Inr t]\<rparr>"

definition scanned_book :: document where
  "scanned_book = \<lparr>page_texts = [Inr [], Inr [32, 12288, 10]]\<rparr>"

definition scanned_world :: world where
  "scanned_world = world_with scanned_book"

text \<open>
  A world in which the engine refuses the request with a \<open>ValueError\<close>, and two
  uploads: a PDF, and the empty text file \<open>x.txt\<close>.
\<close>

definition refusing_world :: world where
  "refusing_world =
     (world_with book)\<lparr>generate_speech_long_text :=
        (\<lambda>r. Inl (LibValueError (py ''bad request'')))\<rparr>"

definition pdf_upload :: upload_file where
  "pdf_upload =
     \<lparr>content_type = Some (py ''application/pdf''), filename = Some (py ''book.pdf''),
      read_result = Inr [37, 80, 68, 70]\<rparr>"

definition text_upload :: upload_file where
  "text_upload =
     \<lparr>content_type = Some (py ''text/plain''), filename = Some (py ''x.txt''),
      read_result = Inr []\<rparr>"





section \<open>Properties of \<open>extract_text_from_pdf\<close>\<close>

subsection \<open>The page loop\<close>

lemma raised_not_own [simp]:
  "raised e \<noteq> ValueError (PageRangeInvalid n)"
  "raised e \<noteq> ValueError NoTextExtracted"
  "raised e \<noteq> ValueError (TextTooLong bound n)"
  by (cases e; simp)+

lemma get_text_not_range: "get_text doc i \<noteq> Inl (ValueError (PageRangeInvalid n))"
  by (simp add: get_text_def split: sum.splits)

lemma extract_pages_not_range:
  "snd (extract_pages doc is texts) \<noteq> Inl (ValueError (PageRangeInvalid n))"
proof (induction "is" arbitrary: texts)
  case Nil
  then show ?case by simp
next
  case (Cons i rest)
  show ?case
  proof (cases "get_text doc i")
    case (Inl e)
    then show ?thesis using get_text_not_range [of doc i n] by simp
  next
    case (Inr t)
    then show ?thesis using Cons.IH [of "texts @ [t]"] by (auto split: prod.splits)
  qed
qed

lemma extract_pages_readable:
  "\<forall>i \<in> set is. page_readable doc (i + 1) \<and> 0 \<le> i \<and> i < page_count doc \<Longrightarrow>
   extract_pages doc is texts =
     (map GetText is, Inr (texts @ map (\<lambda>i. page_text doc (i + 1)) is))"
proof (induction "is" arbitrary: texts)
  case Nil
  then show ?case by simp
next
  case (Cons i rest)
  from Cons.prems have "get_text doc i = Inr (page_text doc (i + 1))"
    by (auto simp: get_text_def page_readable_def page_text_def split: sum.splits)
  with Cons show ?case by simp
qed

lemma py_range_shift: "map (\<lambda>i. f (i + 1)) (py_range (a - 1) b) = map f [a..b]"
  unfolding py_range_def
proof (rule nth_equalityI)
  show "length (map (\<lambda>i. f (i + 1)) [a - 1..b - 1]) = length (map f [a..b])"
    by simp
next
  fix k
  assume "k < length (map (\<lambda>i. f (i + 1)) [a - 1..b - 1])"
  hence k: "int k < b - a + 1" by simp
  hence "[a - 1..b - 1] ! k = a - 1 + int k" and "[a..b] ! k = a + int k"
    by simp_all
  with k show "map (\<lambda>i. f (i + 1)) [a - 1..b - 1] ! k = map f [a..b] ! k"
    by simp
qed

lemma extract_pages_events:
  "ev \<in> set (fst (extract_pages doc is texts)) \<Longrightarrow> \<exists>i. ev = GetText i"
proof (induction "is" arbitrary: texts)
  case Nil
  then show ?case by simp
next
  case (Cons i rest)
  show ?case
  proof (cases "get_text doc i")
    case (Inl e)
    with Cons.prems show ?thesis by simp
  next
    case (Inr t)
    obtain evs r where rec: "extract_pages doc rest (texts @ [t]) = (evs, r)"
      by (cases "extract_pages doc rest (texts @ [t])")
    with Inr Cons.prems have "ev = GetText i \<or> ev \<in> set evs" by simp
    moreover have "ev \<in> set evs \<Longrightarrow> \<exists>j. ev = GetText j"
      using Cons.IH [of "texts @ [t]"] rec by simp
    ultimately show ?thesis by auto
  qed
qed

lemma extract_events:
  assumes "ev \<in> set (fst (extract_text_from_pdf w p s e))"
  shows "extraction_event ev"
proof (cases "pymupdf_open w p")
  case (Inl err)
  with assms show ?thesis by (simp add: extract_text_from_pdf_def)
next
  case (Inr doc)
  let ?r = "extract_pages doc (py_range (sp_of s) (ep_of e (page_count doc))) []"
  have pages: "extraction_event x" if "x \<in> set (fst ?r)" for x
    using extract_pages_events [OF that] by auto
  from assms Inr have "ev = DocOpen p \<or> ev = DocClose \<or> ev \<in> set (fst ?r)"
    by (cases ?r; cases "snd ?r")
       (auto simp: extract_text_from_pdf_def Let_def split: if_splits)
  with pages show ?thesis by auto
qed

subsection \<open>The range check\<close>

text \<open>
  With the document open, the page-range error is raised exactly when the bounds
  that the code has resolved are not acceptable.
\<close>

lemma range_error_iff_resolved_bounds:
  assumes "pymupdf_open w pdf_path = Inr doc"
  shows "sp_of None = 0 \<and> ep_of None (page_count doc) = page_count doc \<and>
         (snd (extract_text_from_pdf w pdf_path start_page end_page)
            = Inl (ValueError (PageRangeInvalid (page_count doc)))
          \<longleftrightarrow> \<not> (0 \<le> sp_of start_page \<and> sp_of start_page < page_count doc \<and>
                 1 \<le> ep_of end_page (page_count doc) \<and>
                 ep_of end_page (page_count doc) \<le> page_count doc \<and>
                 sp_of start_page < ep_of end_page (page_count doc)))"
proof -
  let ?T = "page_count doc"
  let ?sp = "sp_of start_page"
  let ?ep = "ep_of end_page ?T"
  have inv: "range_invalid ?sp ?ep ?T \<longleftrightarrow>
               \<not> (0 \<le> ?sp \<and> ?sp < ?T \<and> 1 \<le> ?ep \<and> ?ep \<le> ?T \<and> ?sp < ?ep)"
    by (auto simp: range_invalid_def)
  have res: "snd (extract_text_from_pdf w pdf_path start_page end_page)
               = Inl (ValueError (PageRangeInvalid ?T)) \<longleftrightarrow> range_invalid ?sp ?ep ?T"
  proof (cases "range_invalid ?sp ?ep ?T")
    case True
    then show ?thesis using assms by (simp add: extract_text_from_pdf_def)
  next
    case False
    obtain evs r where er: "extract_pages doc (py_range ?sp ?ep) [] = (evs, r)"
      by (cases "extract_pages doc (py_range ?sp ?ep) []")
    have "r \<noteq> Inl (ValueError (PageRangeInvalid ?T))"
      using extract_pages_not_range [of doc "py_range ?sp ?ep" "[]" ?T] er by simp
    then show ?thesis using assms False er
      by (cases r) (simp_all add: extract_text_from_pdf_def)
  qed
  show ?thesis using inv res by (simp add: sp_of_def ep_of_def)
qed

text \<open>
  The code's resolution is the specification's for every request without a page
  number \<open>0\<close>, so there the page-range error is raised exactly when the
  specification's bounds are not acceptable.
\<close>

lemma resolution_meets_spec_off_zero:
  assumes "start_page \<noteq> Some 0" and "end_page \<noteq> Some 0"
  shows "sp_of start_page = spec_sp start_page"
    and "ep_of end_page T = spec_ep end_page T"
  using assms by (auto simp: sp_of_def ep_of_def spec_sp_def spec_ep_def split: option.splits)

lemma range_error_iff_spec_bounds:
  assumes "pymupdf_open w pdf_path = Inr doc"
    and "start_page \<noteq> Some 0" and "end_page \<noteq> Some 0"
  shows "snd (extract_text_from_pdf w pdf_path start_page end_page)
           = Inl (ValueError (PageRangeInvalid (page_count doc)))
         \<longleftrightarrow> \<not> spec_bounds_ok (spec_sp start_page) (spec_ep end_page (page_count doc))
                 (page_count doc)"
  using range_error_iff_resolved_bounds [OF assms(1), of start_page end_page]
        resolution_meets_spec_off_zero(1) [OF assms(2,3)]
        resolution_meets_spec_off_zero(2) [OF assms(2,3), of "page_count doc"]
  by (simp add: spec_bounds_ok_def)

subsection \<open>Handles\<close>

lemma open_handles_append: "open_handles (xs @ ys) = open_handles xs + open_handles ys"
  by (induction xs rule: open_handles.induct) simp_all

lemma open_handles_pages: "open_handles (fst (extract_pages doc is texts)) = 0"
proof -
  have "(\<forall>ev \<in> set evs. \<exists>i. ev = GetText i) \<Longrightarrow> open_handles evs = 0" for evs
    by (induction evs) auto
  thus ?thesis using extract_pages_events by blast
qed

text \<open>
  The handle is closed when the operation returns a text and when it refuses the
  page range.
\<close>

lemma handle_closed_on_return:
  assumes "extract_text_from_pdf w p s e = (evs, Inr t)"
  shows "open_handles evs = 0"
proof (cases "pymupdf_open w p")
  case (Inl err)
  with assms show ?thesis by (simp add: extract_text_from_pdf_def)
next
  case (Inr doc)
  let ?r = "extract_pages doc (py_range (sp_of s) (ep_of e (page_count doc))) []"
  from assms Inr have "evs = DocOpen p # fst ?r @ [DocClose]"
    by (cases ?r; cases "snd ?r")
       (auto simp: extract_text_from_pdf_def Let_def split: if_splits)
  thus ?thesis by (simp add: open_handles_append open_handles_pages)
qed

lemma handle_closed_on_range_error:
  assumes "extract_text_from_pdf w p s e = (evs, Inl (ValueError (PageRangeInvalid n)))"
  shows "open_handles evs = 0"
proof (cases "pymupdf_open w p")
  case (Inl err)
  with assms show ?thesis by (simp add: extract_text_from_pdf_def)
next
  case (Inr doc)
  let ?r = "extract_pages doc (py_range (sp_of s) (ep_of e (page_count doc))) []"
  have "snd ?r \<noteq> Inl (ValueError (PageRangeInvalid n))"
    by (rule extract_pages_not_range)
  with assms Inr have "evs = [DocOpen p, DocClose]"
    by (cases ?r; cases "snd ?r")
       (auto simp: extract_text_from_pdf_def Let_def split: if_splits)
  thus ?thesis by simp
qed

subsection \<open>Example runs\<close>

lemma book_facts:
  "pymupdf_open book_world p = Inr book"
  "page_count book = 3"
  "page_texts book = [Inr (py ''one''), Inr (py ''two''), Inr (py ''three'')]"
  by (simp_all add: book_world_def world_with_def book_def page_count_def)

subsection \<open>Claims about extraction\<close>

text \<open>
  C2. Every request with \<open>start \<le> 0\<close>, \<open>end > T\<close> or \<open>start > end\<close> should fail with
  the page-range error. The code tests the truth value of \<open>start_page\<close> and
  \<open>end_page\<close>, so a page number \<open>0\<close> is taken for an absent one: on the three-page
  book, \<open>start = 0\<close> extracts the whole document, and \<open>start = 2, end = 0\<close> extracts
  pages 2 to 3, where both requests should have been refused.
\<close>

theorem zero_page_number_taken_for_absent:
  "extract_text_from_pdf book_world (py ''book.pdf'') (Some 0) None =
     ([DocOpen (py ''book.pdf''), GetText 0, GetText 1, GetText 2, DocClose],
      Inr (py ''one'' @ [10, 10] @ py ''two'' @ [10, 10] @ py ''three'')) \<and>
   extract_text_from_pdf book_world (py ''book.pdf'') (Some 2) (Some 0) =
     ([DocOpen (py ''book.pdf''), GetText 1, GetText 2, DocClose],
      Inr (py ''two'' @ [10, 10] @ py ''three''))"
  by code_simp

text \<open>
  C3. The resolved bounds of a request are \<open>sp = start - 1\<close> and \<open>ep = end\<close>,
  with \<open>0\<close> and \<open>T\<close> for an absent start and end, and a request whose bounds do
  not satisfy \<open>0 \<le> sp < T\<close>, \<open>1 \<le> ep \<le> T\<close> and \<open>sp < ep\<close> should be
  refused with the page-range error. The code resolves a page number \<open>0\<close> like an
  absent one (the same test of the truth value as in C2): for \<open>start = 0\<close> the bound
  is \<open>sp = -1\<close>, which is not acceptable, and yet the code takes \<open>sp = 0\<close> and
  extracts pages 1 to 2 of the three-page book.
\<close>

theorem zero_start_not_refused:
  "spec_sp (Some 0) = - 1 \<and>
   \<not> spec_bounds_ok (spec_sp (Some 0)) (spec_ep (Some 2) (page_count book)) (page_count book) \<and>
   sp_of (Some 0) = 0 \<and>
   extract_text_from_pdf book_world (py ''book.pdf'') (Some 0) (Some 2) =
     ([DocOpen (py ''book.pdf''), GetText 0, GetText 1, DocClose],
      Inr (py ''one'' @ [10, 10] @ py ''two''))"
  by code_simp

text \<open>
  C4. For \<open>1 \<le> start \<le> end \<le> T\<close>, with the document open and the pages \<open>start\<close> to
  \<open>end\<close> readable, extraction returns the texts of the pages \<open>start, ..., end\<close> in
  ascending order, joined by a blank line; it reads exactly these pages and no
  other, and closes the document.
\<close>

theorem pages_in_range_extracted:
  assumes "pymupdf_open w pdf_path = Inr doc"
    and "1 \<le> start" and "start \<le> end" and "end \<le> page_count doc"
    and "\<forall>k \<in> set [start..end]. page_readable doc k"
  shows "extract_text_from_pdf w pdf_path (Some start) (Some end) =
           (DocOpen pdf_path # map GetText [start - 1..end - 1] @ [DocClose],
            Inr (join [10, 10] (map (page_text doc) [start..end])))"
proof -
  have valid: "\<not> range_invalid (start - 1) end (page_count doc)"
    using assms by (simp add: range_invalid_def)
  have "\<forall>i \<in> set (py_range (start - 1) end).
          page_readable doc (i + 1) \<and> 0 \<le> i \<and> i < page_count doc"
    using assms by (auto simp: py_range_def)
  hence "extract_pages doc (py_range (start - 1) end) [] =
           (map GetText (py_range (start - 1) end),
            Inr (map (\<lambda>i. page_text doc (i + 1)) (py_range (start - 1) end)))"
    using extract_pages_readable [of "py_range (start - 1) end" doc "[]"] by simp
  hence "extract_pages doc (py_range (start - 1) end) [] =
           (map GetText [start - 1..end - 1], Inr (map (page_text doc) [start..end]))"
    by (simp add: py_range_shift) (simp add: py_range_def)
  thus ?thesis
    using assms(1,2,3) valid
    by (simp add: extract_text_from_pdf_def sp_of_def ep_of_def page_separator_def)
qed

theorem pages_in_range_extracted_witness:
  "pymupdf_open book_world (py ''book.pdf'') = Inr book \<and>
   (1::int) \<le> 2 \<and> (2::int) \<le> 3 \<and> 3 \<le> page_count book \<and>
   page_readable book 2 \<and> page_readable book 3 \<and>
   extract_text_from_pdf book_world (py ''book.pdf'') (Some 2) (Some 3) =
     ([DocOpen (py ''book.pdf''), GetText 1, GetText 2, DocClose],
      Inr (py ''two'' @ [10, 10] @ py ''three''))"
  using pages_in_range_extracted [of book_world "py ''book.pdf''" book 2 3]
  by (simp add: book_facts page_readable_def page_text_def upto.simps)

text \<open>
  C5. The document handle should be closed on every exit path. The code closes it
  before raising the page-range error and before returning, but an exception from a
  page leaves the function with the handle open: on the document whose second page
  cannot be read, the run opens the document, reads page 0, fails on page 1 and
  never closes.
\<close>

theorem handle_left_open_when_page_fails:
  "extract_text_from_pdf damaged_world (py ''book.pdf'') None None =
     ([DocOpen (py ''book.pdf''), GetText 0, GetText 1],
      Inl (OtherException (py ''damaged page''))) \<and>
   open_handles (fst (extract_text_from_pdf damaged_world (py ''book.pdf'') None None)) = 1"
  by code_simp

section \<open>Properties of \<open>pdf_to_mp3_with_ttsfm\<close>\<close>

lemma strip_Nil_iff: "strip s = [] \<longleftrightarrow> (\<forall>c \<in> set s. isspace c)"
proof
  assume "strip s = []"
  hence "\<forall>c \<in> set (dropWhile isspace s). isspace c"
    by (simp add: strip_def)
  moreover have "\<forall>c \<in> set (takeWhile isspace s). isspace c"
    by (auto dest: set_takeWhileD)
  moreover have "set s = set (takeWhile isspace s) \<union> set (dropWhile isspace s)"
    by (metis set_append takeWhile_dropWhile_id)
  ultimately show "\<forall>c \<in> set s. isspace c" by blast
next
  assume "\<forall>c \<in> set s. isspace c"
  thus "strip s = []" by (auto simp: strip_def dest: set_dropWhileD)
qed

lemma strip_replicate: "strip (replicate n c) = (if isspace c then [] else replicate n c)"
  by (simp add: strip_def)

lemma extraction_is_pipeline: "extraction_event ev \<Longrightarrow> pipeline_event ev"
  by (cases ev) simp_all

lemma extraction_not_engine: "extraction_event ev \<Longrightarrow> \<not> is_engine_call ev"
  by (cases ev) simp_all

text \<open>The four ways \<open>generate_and_save\<close> can end.\<close>

lemma generate_and_save_cases:
  obtains (no_voice) k where
      "generate_and_save w t m v sp ml = ([], Inl (KeyError k))"
  | (engine_failed) req e where
      "generate_and_save w t m v sp ml = ([GenerateSpeech req], Inl (raised e))"
  | (save_failed) req out e where
      "generate_and_save w t m v sp ml = ([GenerateSpeech req, SaveToFile out], Inl (raised e))"
  | (saved) req out where
      "generate_and_save w t m v sp ml = ([GenerateSpeech req, SaveToFile out], Inr ())"
proof (cases "voice_member w (str_upper w v)")
  case None
  then show ?thesis using no_voice by (simp add: generate_and_save_def)
next
  case (Some vm)
  let ?req = "\<lparr>req_text = t, req_voice = vm, req_response_format = MP3, req_speed = sp,
                req_max_length = ml, req_preserve_words = True, req_auto_combine = True\<rparr>"
  show ?thesis
  proof (cases "generate_speech_long_text w ?req")
    case (Inl e)
    with Some show ?thesis using engine_failed by (simp add: generate_and_save_def)
  next
    case (Inr resp)
    show ?thesis
    proof (cases "save_to_file w resp (path_str (parse_path m))")
      case None
      with Some Inr show ?thesis using saved by (simp add: generate_and_save_def)
    next
      case (Some e)
      with \<open>voice_member w (str_upper w v) = Some vm\<close> Inr show ?thesis
        using save_failed by (simp add: generate_and_save_def)
    qed
  qed
qed

lemma generate_and_save_events:
  "ev \<in> set (fst (generate_and_save w t m v sp ml)) \<Longrightarrow> pipeline_event ev"
  by (cases rule: generate_and_save_cases [of w t m v sp ml]) auto

lemma generate_and_save_not_own:
  "snd (generate_and_save w t m v sp ml) \<noteq> Inl (ValueError NoTextExtracted)"
  "snd (generate_and_save w t m v sp ml) \<noteq> Inl (ValueError (TextTooLong bound n))"
  by (cases rule: generate_and_save_cases [of w t m v sp ml]; simp)+

text \<open>The function, one equation for each way through it.\<close>

lemma pdf_to_mp3_extract_failed:
  "extract_text_from_pdf w p s e = (evs, Inl err) \<Longrightarrow>
   pdf_to_mp3_with_ttsfm w p m v sp ml s e = (evs, Inl err)"
  by (simp add: pdf_to_mp3_with_ttsfm_def)

lemma pdf_to_mp3_blank:
  "extract_text_from_pdf w p s e = (evs, Inr t) \<Longrightarrow> strip t = [] \<Longrightarrow>
   pdf_to_mp3_with_ttsfm w p m v sp ml s e = (evs, Inl (ValueError NoTextExtracted))"
  by (simp add: pdf_to_mp3_with_ttsfm_def)

lemma pdf_to_mp3_too_long:
  "extract_text_from_pdf w p s e = (evs, Inr t) \<Longrightarrow> strip t \<noteq> [] \<Longrightarrow>
   int (length t) > 50000 \<Longrightarrow>
   pdf_to_mp3_with_ttsfm w p m v sp ml s e
     = (evs, Inl (ValueError (TextTooLong 50000 (int (length t)))))"
  by (simp add: pdf_to_mp3_with_ttsfm_def)

lemma pdf_to_mp3_engine:
  "extract_text_from_pdf w p s e = (evs, Inr t) \<Longrightarrow> strip t \<noteq> [] \<Longrightarrow>
   \<not> int (length t) > 50000 \<Longrightarrow>
   pdf_to_mp3_with_ttsfm w p m v sp ml s e
     = (evs @ fst (generate_and_save w t m v sp ml), snd (generate_and_save w t m v sp ml))"
  by (simp add: pdf_to_mp3_with_ttsfm_def split: prod.splits)

lemma pipeline_events:
  assumes "ev \<in> set (fst (pdf_to_mp3_with_ttsfm w p m v sp ml s e))"
  shows "pipeline_event ev"
proof -
  obtain evs r where ex: "extract_text_from_pdf w p s e = (evs, r)"
    by (cases "extract_text_from_pdf w p s e")
  have base: "pipeline_event x" if "x \<in> set evs" for x
    using extract_events [of x w p s e] ex that by (simp add: extraction_is_pipeline)
  show ?thesis
  proof (cases r)
    case (Inl err)
    with ex assms base show ?thesis by (simp add: pdf_to_mp3_extract_failed)
  next
    case (Inr t)
    show ?thesis
    proof (cases "strip t = []")
      case True
      with ex Inr assms base show ?thesis by (simp add: pdf_to_mp3_blank)
    next
      case False
      show ?thesis
      proof (cases "int (length t) > 50000")
        case True
        with ex Inr False assms base show ?thesis by (simp add: pdf_to_mp3_too_long)
      next
        case short: False
        from ex Inr False short assms
        have "ev \<in> set evs \<or> ev \<in> set (fst (generate_and_save w t m v sp ml))"
          by (simp add: pdf_to_mp3_engine)
        thus ?thesis using base generate_and_save_events by blast
      qed
    qed
  qed
qed

subsection \<open>Example runs\<close>

lemma one_page_extract:
  "extract_text_from_pdf (one_page_world t) p None None
     = ([DocOpen p, GetText 0, DocClose], Inr t)"
  by (simp add: extract_text_from_pdf_def one_page_world_def world_with_def sp_of_def
        ep_of_def page_count_def range_invalid_def py_range_def get_text_def)

lemma scanned_extract:
  "extract_text_from_pdf scanned_world p None None
     = ([DocOpen p, GetText 0, GetText 1, DocClose], Inr [10, 10, 32, 12288, 10])"
  by (simp add: extract_text_from_pdf_def scanned_world_def scanned_book_def world_with_def
        sp_of_def ep_of_def page_count_def range_invalid_def py_range_def get_text_def
        upto.simps page_separator_def)

lemma book_extract:
  "extract_text_from_pdf book_world p None None
     = ([DocOpen p, GetText 0, GetText 1, GetText 2, DocClose],
        Inr (py ''one'' @ [10, 10] @ py ''two'' @ [10, 10] @ py ''three''))"
  by (simp add: extract_text_from_pdf_def book_facts
        sp_of_def ep_of_def range_invalid_def py_range_def get_text_def
        upto.simps page_separator_def)

subsection \<open>Claims about the checks of the text\<close>

text \<open>
  C6, as amended. The claim says that a text of length \<open>L\<close> is rejected with the
  size error exactly when \<open>L > 50000\<close>. The emptiness check comes first in the code,
  so this holds for the texts that are not blank: such a text is rejected with the
  size error, which reports the limit 50000 and the length \<open>L\<close>, when \<open>L > 50000\<close>,
  and no size error is raised otherwise.
\<close>

theorem size_limit:
  assumes "extract_text_from_pdf w pdf_path start_page end_page = (evs, Inr full_text)"
    and "strip full_text \<noteq> []"
  shows "if int (length full_text) > 50000
         then pdf_to_mp3_with_ttsfm w pdf_path mp3_path voice speed max_length
                start_page end_page
              = (evs, Inl (ValueError (TextTooLong 50000 (int (length full_text)))))
         else \<forall>bound n. snd (pdf_to_mp3_with_ttsfm w pdf_path mp3_path voice speed max_length
                             start_page end_page)
                       \<noteq> Inl (ValueError (TextTooLong bound n))"
proof (cases "int (length full_text) > 50000")
  case True
  then show ?thesis using assms by (simp add: pdf_to_mp3_too_long)
next
  case False
  then show ?thesis
    using assms generate_and_save_not_own(2) [of w full_text mp3_path voice speed max_length]
    by (simp add: pdf_to_mp3_engine)
qed

theorem size_limit_witness:
  "strip (replicate 50001 (97::nat)) \<noteq> [] \<and>
   snd (pdf_to_mp3_with_ttsfm (one_page_world (replicate 50001 97)) (py ''a.pdf'') (py ''a.mp3'')
          (py ''alloy'') 1 1000 None None)
     = Inl (ValueError (TextTooLong 50000 50001)) \<and>
   strip (replicate 50000 (97::nat)) \<noteq> [] \<and>
   snd (pdf_to_mp3_with_ttsfm (one_page_world (replicate 50000 97)) (py ''a.pdf'') (py ''a.mp3'')
          (py ''alloy'') 1 1000 None None)
     \<noteq> Inl (ValueError (TextTooLong 50000 50000))"
proof -
  have s1: "strip (replicate 50001 (97::nat)) \<noteq> []"
    by (simp add: strip_replicate isspace_def)
  have s0: "strip (replicate 50000 (97::nat)) \<noteq> []"
    by (simp add: strip_replicate isspace_def)
  have r1: "snd (pdf_to_mp3_with_ttsfm (one_page_world (replicate 50001 97)) (py ''a.pdf'')
                   (py ''a.mp3'') (py ''alloy'') 1 1000 None None)
              = Inl (ValueError (TextTooLong 50000 50001))"
    using size_limit [OF one_page_extract s1,
            of "py ''a.pdf''" "py ''a.mp3''" "py ''alloy''" 1 1000]
    by simp
  have r0: "snd (pdf_to_mp3_with_ttsfm (one_page_world (replicate 50000 97)) (py ''a.pdf'')
                   (py ''a.mp3'') (py ''alloy'') 1 1000 None None)
              \<noteq> Inl (ValueError (TextTooLong 50000 50000))"
    using size_limit [OF one_page_extract s0,
            of "py ''a.pdf''" "py ''a.mp3''" "py ''alloy''" 1 1000]
    by simp
  from s1 r1 s0 r0 show ?thesis by (intro conjI)
qed

text \<open>
  The claim as stated fails on a blank text longer than the limit: a page of 50001
  spaces gives a text of length 50001, and the run ends with the empty-text error,
  not with the size error.
\<close>

theorem size_limit_counterexample:
  "snd (extract_text_from_pdf (one_page_world (replicate 50001 32)) (py ''a.pdf'') None None)
     = Inr (replicate 50001 32) \<and>
   length (replicate 50001 (32::nat)) = 50001 \<and>
   snd (pdf_to_mp3_with_ttsfm (one_page_world (replicate 50001 32)) (py ''a.pdf'') (py ''a.mp3'')
          (py ''alloy'') 1 1000 None None)
     = Inl (ValueError NoTextExtracted)"
proof -
  have s: "strip (replicate 50001 (32::nat)) = []"
    by (simp add: strip_replicate isspace_def)
  have ex: "snd (extract_text_from_pdf (one_page_world (replicate 50001 32)) (py ''a.pdf'')
                   None None) = Inr (replicate 50001 32)"
    by (simp add: one_page_extract)
  have len: "length (replicate 50001 (32::nat)) = 50001"
    by (rule length_replicate)
  have run: "snd (pdf_to_mp3_with_ttsfm (one_page_world (replicate 50001 32)) (py ''a.pdf'')
                    (py ''a.mp3'') (py ''alloy'') 1 1000 None None)
               = Inl (ValueError NoTextExtracted)"
    using pdf_to_mp3_blank [OF one_page_extract s] by simp
  from ex len run show ?thesis by (intro conjI)
qed

text \<open>
  C7. When the extracted text is empty or white space only, the run fails with the
  empty-text error and the engine is not called; this is the only case in which
  that error is raised, so a text that is not empty after trimming never gives it.
\<close>

theorem empty_text_rejected:
  assumes "extract_text_from_pdf w pdf_path start_page end_page = (evs, Inr full_text)"
  shows "((\<forall>c \<in> set full_text. isspace c) \<longleftrightarrow> strip full_text = []) \<and>
         (snd (pdf_to_mp3_with_ttsfm w pdf_path mp3_path voice speed max_length
                 start_page end_page) = Inl (ValueError NoTextExtracted)
            \<longleftrightarrow> (\<forall>c \<in> set full_text. isspace c)) \<and>
         ((\<forall>c \<in> set full_text. isspace c) \<longrightarrow>
            filter is_engine_call
              (fst (pdf_to_mp3_with_ttsfm w pdf_path mp3_path voice speed max_length
                      start_page end_page)) = [])"
proof -
  let ?R = "pdf_to_mp3_with_ttsfm w pdf_path mp3_path voice speed max_length start_page end_page"
  have blank: "(\<forall>c \<in> set full_text. isspace c) \<longleftrightarrow> strip full_text = []"
    by (simp add: strip_Nil_iff)
  have raise_iff: "snd ?R = Inl (ValueError NoTextExtracted) \<longleftrightarrow> strip full_text = []"
  proof (cases "strip full_text = []")
    case True
    then show ?thesis using assms by (simp add: pdf_to_mp3_blank)
  next
    case False
    show ?thesis
    proof (cases "int (length full_text) > 50000")
      case True
      with False assms show ?thesis by (simp add: pdf_to_mp3_too_long)
    next
      case short: False
      with False assms show ?thesis
        using generate_and_save_not_own(1) [of w full_text mp3_path voice speed max_length]
        by (simp add: pdf_to_mp3_engine)
    qed
  qed
  have "\<not> is_engine_call x" if "x \<in> set evs" for x
    using extract_events [of x w pdf_path start_page end_page] assms that
    by (simp add: extraction_not_engine)
  hence "filter is_engine_call evs = []"
    by (simp add: filter_empty_conv)
  hence quiet: "strip full_text = [] \<Longrightarrow> filter is_engine_call (fst ?R) = []"
    using assms by (simp add: pdf_to_mp3_blank)
  show ?thesis using blank raise_iff quiet by simp
qed

theorem empty_text_rejected_witness:
  "extract_text_from_pdf scanned_world (py ''scan.pdf'') None None
     = ([DocOpen (py ''scan.pdf''), GetText 0, GetText 1, DocClose],
        Inr [10, 10, 32, 12288, 10]) \<and>
   snd (pdf_to_mp3_with_ttsfm scanned_world (py ''scan.pdf'') (py ''scan.mp3'') (py ''alloy'')
          1 1000 None None) = Inl (ValueError NoTextExtracted) \<and>
   filter is_engine_call
     (fst (pdf_to_mp3_with_ttsfm scanned_world (py ''scan.pdf'') (py ''scan.mp3'')
             (py ''alloy'') 1 1000 None None)) = [] \<and>
   snd (pdf_to_mp3_with_ttsfm book_world (py ''book.pdf'') (py ''book.mp3'') (py ''alloy'')
          1 1000 None None) \<noteq> Inl (ValueError NoTextExtracted)"
proof -
  have scan:
    "snd (pdf_to_mp3_with_ttsfm scanned_world (py ''scan.pdf'') (py ''scan.mp3'') (py ''alloy'')
            1 1000 None None) = Inl (ValueError NoTextExtracted) \<and>
     filter is_engine_call
       (fst (pdf_to_mp3_with_ttsfm scanned_world (py ''scan.pdf'') (py ''scan.mp3'')
               (py ''alloy'') 1 1000 None None)) = []"
    using empty_text_rejected [OF scanned_extract,
            of "py ''scan.pdf''" "py ''scan.mp3''" "py ''alloy''" 1 1000]
    by (simp add: isspace_def)
  have read:
    "snd (pdf_to_mp3_with_ttsfm book_world (py ''book.pdf'') (py ''book.mp3'') (py ''alloy'')
            1 1000 None None) \<noteq> Inl (ValueError NoTextExtracted)"
    using empty_text_rejected [OF book_extract,
            of "py ''book.pdf''" "py ''book.mp3''" "py ''alloy''" 1 1000]
    by (simp add: isspace_def py_def)
  from scanned_extract [of "py ''scan.pdf''"] scan read show ?thesis by (intro conjI) simp_all
qed

section \<open>Properties of \<open>convert_pdf\<close>\<close>

text \<open>The six ways through the handler.\<close>

lemma convert_pdf_cases:
  fixes w pdf voice speed max_length start_page end_page background_tasks
  defines "C \<equiv> convert_pdf w pdf voice speed max_length start_page end_page background_tasks"
  obtains (rejected)
      "\<not> accepted_content_type (content_type pdf)"
      "C = ([], HTTPException 400 UnsupportedFileType)"
  | (no_dir) e where
      "accepted_content_type (content_type pdf)" "mkdtemp w = Inl e"
      "C = ([], Uncaught (raised e))"
  | (read_failed) d where
      "accepted_content_type (content_type pdf)" "mkdtemp w = Inr d"
      "C = ([Mkdtemp d, ReadUpload, Rmtree (temp_dir_of d)],
            HTTPException 400 FailedToReadUpload)"
  | (write_failed) d where
      "accepted_content_type (content_type pdf)" "mkdtemp w = Inr d"
      "C = ([Mkdtemp d, ReadUpload, WriteBytes (pdf_path_of (temp_dir_of d) (filename pdf)),
             Rmtree (temp_dir_of d)],
            HTTPException 400 FailedToReadUpload)"
  | (pipeline_failed) d evs err where
      "accepted_content_type (content_type pdf)" "mkdtemp w = Inr d"
      "\<forall>ev \<in> set evs. pipeline_event ev"
      "C = ([Mkdtemp d, ReadUpload, WriteBytes (pdf_path_of (temp_dir_of d) (filename pdf))]
              @ evs @ [Rmtree (temp_dir_of d)],
            HTTPException (if is_ValueError err then 400 else 500)
              (if is_ValueError err then ExceptionText err else FailedToGenerateAudio))"
  | (succeeded) d evs p name where
      "accepted_content_type (content_type pdf)" "mkdtemp w = Inr d"
      "\<forall>ev \<in> set evs. pipeline_event ev"
      "C = ([Mkdtemp d, ReadUpload, WriteBytes (pdf_path_of (temp_dir_of d) (filename pdf))]
              @ evs,
            FileResponse p (py ''audio/mpeg'') name
              ((case background_tasks of None \<Rightarrow> [] | Some ts \<Rightarrow> ts)
                 @ [RmtreeTask (temp_dir_of d)]))"
proof (cases "accepted_content_type (content_type pdf)")
  case False
  then show ?thesis using rejected by (simp add: C_def convert_pdf_def Let_def)
next
  case acc: True
  show ?thesis
  proof (cases "mkdtemp w")
    case (Inl e)
    with acc show ?thesis using no_dir by (simp add: C_def convert_pdf_def Let_def)
  next
    case (Inr d)
    let ?tmp = "temp_dir_of d"
    let ?pdf = "pdf_path_of ?tmp (filename pdf)"
    let ?mp3 = "mp3_path_of ?tmp ?pdf"
    show ?thesis
    proof (cases "read_result pdf")
      case (Inl e)
      with acc Inr show ?thesis using read_failed by (simp add: C_def convert_pdf_def Let_def)
    next
      case rd: (Inr pdf_bytes)
      show ?thesis
      proof (cases "write_bytes w ?pdf pdf_bytes")
        case (Some e)
        with acc Inr rd show ?thesis using write_failed
          by (simp add: C_def convert_pdf_def Let_def)
      next
        case None
        let ?R = "pdf_to_mp3_with_ttsfm w (path_str ?pdf) (path_str ?mp3) voice speed
                    max_length start_page end_page"
        obtain evs r where run: "?R = (evs, r)" by (cases ?R)
        have evs: "\<forall>ev \<in> set evs. pipeline_event ev"
          using pipeline_events [of _ w "path_str ?pdf" "path_str ?mp3" voice speed
                  max_length start_page end_page] run by simp
        show ?thesis
        proof (cases r)
          case (Inl err)
          with acc Inr rd None run evs show ?thesis
            using pipeline_failed [of d evs err]
            by (simp add: C_def convert_pdf_def Let_def)
        next
          case (Inr u)
          with acc \<open>mkdtemp w = Inr d\<close> rd None run evs show ?thesis
            using succeeded [of d evs]
            by (simp add: C_def convert_pdf_def Let_def)
        qed
      qed
    qed
  qed
qed

lemma pipeline_event_kinds:
  "pipeline_event ev \<Longrightarrow> \<not> is_mkdtemp ev"
  "pipeline_event ev \<Longrightarrow> ev \<noteq> Rmtree d"
  by (cases ev; simp)+

lemma pipeline_no_mkdtemp:
  "\<forall>ev \<in> set evs. pipeline_event ev \<Longrightarrow> filter is_mkdtemp evs = []"
  by (auto simp: filter_empty_conv pipeline_event_kinds)

lemma pipeline_no_rmtree:
  "\<forall>ev \<in> set evs. pipeline_event ev \<Longrightarrow> Rmtree d \<notin> set evs"
  using pipeline_event_kinds(2) by blast

lemma pipeline_count_rmtree:
  "\<forall>ev \<in> set evs. pipeline_event ev \<Longrightarrow> count_list evs (Rmtree d) = 0"
  using pipeline_no_rmtree [of evs d] by (simp add: count_list_0_iff)




subsection \<open>Example requests\<close>

lemma request_facts:
  "content_type pdf_upload = Some (py ''application/pdf'')"
  "read_result pdf_upload = Inr [37, 80, 68, 70]"
  "content_type text_upload = Some (py ''text/plain'')"
  "mkdtemp book_world = Inr (py ''/tmp/pdf2tts_k3'')"
  "write_bytes book_world p b = None"
  by (simp_all add: pdf_upload_def text_upload_def book_world_def world_with_def)

lemma staged_paths:
  "temp_dir_of (py ''/tmp/pdf2tts_k3'')
     = \<lparr>root = py ''/'', parts = [py ''tmp'', py ''pdf2tts_k3'']\<rparr>"
  "pdf_path_of (temp_dir_of (py ''/tmp/pdf2tts_k3'')) (filename pdf_upload)
     = \<lparr>root = py ''/'', parts = [py ''tmp'', py ''pdf2tts_k3'', py ''book.pdf'']\<rparr>"
  by code_simp+

lemma staged_path_strs:
  "path_str (pdf_path_of (temp_dir_of (py ''/tmp/pdf2tts_k3'')) (filename pdf_upload))
     = py ''/tmp/pdf2tts_k3/book.pdf''"
  "path_str (mp3_path_of (temp_dir_of (py ''/tmp/pdf2tts_k3''))
               (pdf_path_of (temp_dir_of (py ''/tmp/pdf2tts_k3'')) (filename pdf_upload)))
     = py ''/tmp/pdf2tts_k3/book.mp3''"
  by code_simp+

lemma range_run:
  "pdf_to_mp3_with_ttsfm book_world (py ''/tmp/pdf2tts_k3/book.pdf'')
     (py ''/tmp/pdf2tts_k3/book.mp3'') (py ''alloy'') 1 1000 (Some 5) (Some 3)
   = ([DocOpen (py ''/tmp/pdf2tts_k3/book.pdf''), DocClose],
      Inl (ValueError (PageRangeInvalid 3)))"
  by code_simp

lemma voice_run:
  "pdf_to_mp3_with_ttsfm book_world (py ''/tmp/pdf2tts_k3/book.pdf'')
     (py ''/tmp/pdf2tts_k3/book.mp3'') (py ''robot'') 1 1000 None None
   = ([DocOpen (py ''/tmp/pdf2tts_k3/book.pdf''), GetText 0, GetText 1, GetText 2, DocClose],
      Inl (KeyError (py ''ROBOT'')))"
  by code_simp

text \<open>A successful request, from the creation of the directory to its deletion.\<close>

lemma success_trace:
  "handle_request book_world pdf_upload (py ''alloy'') 1 1000 None None None
   = [Mkdtemp (py ''/tmp/pdf2tts_k3''), ReadUpload,
      WriteBytes \<lparr>root = py ''/'', parts = [py ''tmp'', py ''pdf2tts_k3'', py ''book.pdf'']\<rparr>,
      DocOpen (py ''/tmp/pdf2tts_k3/book.pdf''), GetText 0, GetText 1, GetText 2, DocClose,
      GenerateSpeech
        \<lparr>req_text = py ''one'' @ [10, 10] @ py ''two'' @ [10, 10] @ py ''three'',
         req_voice = py ''ALLOY'', req_response_format = MP3, req_speed = 1,
         req_max_length = 1000, req_preserve_words = True, req_auto_combine = True\<rparr>,
      SaveToFile (py ''/tmp/pdf2tts_k3/book.mp3''),
      SendFile (py ''/tmp/pdf2tts_k3/book.mp3''),
      Rmtree \<lparr>root = py ''/'', parts = [py ''tmp'', py ''pdf2tts_k3'']\<rparr>]"
  by code_simp




subsection \<open>Claims about the service\<close>

text \<open>
  C8. A request whose content type is neither \<open>application/pdf\<close> nor
  \<open>application/octet-stream\<close> nor absent is answered with status 400 before
  anything else happens: no temporary directory is created. A request with an
  accepted content type, when \<open>mkdtemp\<close> succeeds, creates exactly one temporary
  directory.
\<close>

theorem content_type_gate:
  "(content_type pdf \<noteq> Some (py ''application/pdf'') \<and>
    content_type pdf \<noteq> Some (py ''application/octet-stream'') \<and>
    content_type pdf \<noteq> None \<longrightarrow>
      convert_pdf w pdf voice speed max_length start_page end_page background_tasks
        = ([], HTTPException 400 UnsupportedFileType)) \<and>
   ((content_type pdf = Some (py ''application/pdf'') \<or>
     content_type pdf = Some (py ''application/octet-stream'') \<or>
     content_type pdf = None) \<and> mkdtemp w = Inr d \<longrightarrow>
      filter is_mkdtemp
        (fst (convert_pdf w pdf voice speed max_length start_page end_page background_tasks))
        = [Mkdtemp d])"
proof (cases rule: convert_pdf_cases
         [of pdf w voice speed max_length start_page end_page background_tasks])
  case rejected
  then show ?thesis by (auto simp: accepted_content_type_def)
next
  case (no_dir e)
  then show ?thesis by (auto simp: accepted_content_type_def)
next
  case (read_failed d')
  then show ?thesis by (auto simp: accepted_content_type_def)
next
  case (write_failed d')
  then show ?thesis by (auto simp: accepted_content_type_def)
next
  case (pipeline_failed d' evs err)
  then show ?thesis by (auto simp: accepted_content_type_def pipeline_no_mkdtemp)
next
  case (succeeded d' evs p name)
  then show ?thesis by (auto simp: accepted_content_type_def pipeline_no_mkdtemp)
qed

theorem content_type_gate_witness:
  "convert_pdf book_world text_upload (py ''alloy'') 1 1000 None None None
     = ([], HTTPException 400 UnsupportedFileType) \<and>
   filter is_mkdtemp
     (fst (convert_pdf book_world pdf_upload (py ''alloy'') 1 1000 None None None))
     = [Mkdtemp (py ''/tmp/pdf2tts_k3'')]"
proof -
  have refused: "convert_pdf book_world text_upload (py ''alloy'') 1 1000 None None None
                   = ([], HTTPException 400 UnsupportedFileType)"
    using content_type_gate [where pdf = text_upload and w = book_world
            and voice = "py ''alloy''" and speed = 1 and max_length = 1000
            and start_page = None and end_page = None and background_tasks = None]
    by (simp add: request_facts py_def)
  have created: "filter is_mkdtemp
                   (fst (convert_pdf book_world pdf_upload (py ''alloy'') 1 1000 None None None))
                   = [Mkdtemp (py ''/tmp/pdf2tts_k3'')]"
    using content_type_gate [where pdf = pdf_upload and w = book_world
            and voice = "py ''alloy''" and speed = 1 and max_length = 1000
            and start_page = None and end_page = None and background_tasks = None
            and d = "py ''/tmp/pdf2tts_k3''"]
    by (simp add: request_facts)
  from refused created show ?thesis by (intro conjI)
qed





text \<open>
  C9, as amended. The handler chooses the status by the class of the exception:
  a staged request whose conversion raises a \<open>ValueError\<close> is answered with status
  400 and the exception's text, and one whose conversion raises any other exception
  with status 500; in both cases the deletion of the temporary directory is the last
  thing before the response. The three failures the program raises itself (invalid
  page range, empty text, oversized text) are \<open>ValueError\<close>s; an invalid voice is a
  \<open>KeyError\<close>; a failure of a library gets the status of the class the library
  raises.
\<close>

theorem failure_status_by_exception_class:
  assumes "content_type pdf = Some (py ''application/pdf'') \<or>
           content_type pdf = Some (py ''application/octet-stream'') \<or>
           content_type pdf = None"
    and "mkdtemp w = Inr d"
    and "read_result pdf = Inr pdf_bytes"
    and "write_bytes w (pdf_path_of (temp_dir_of d) (filename pdf)) pdf_bytes = None"
    and "pdf_to_mp3_with_ttsfm w
           (path_str (pdf_path_of (temp_dir_of d) (filename pdf)))
           (path_str (mp3_path_of (temp_dir_of d) (pdf_path_of (temp_dir_of d) (filename pdf))))
           voice speed max_length start_page end_page = (evs, Inl err)"
  shows "snd (convert_pdf w pdf voice speed max_length start_page end_page background_tasks)
           = (case err of
                ValueError m \<Rightarrow> HTTPException 400 (ExceptionText err)
              | KeyError k \<Rightarrow> HTTPException 500 FailedToGenerateAudio
              | IndexError \<Rightarrow> HTTPException 500 FailedToGenerateAudio
              | OtherException t \<Rightarrow> HTTPException 500 FailedToGenerateAudio) \<and>
         handle_request w pdf voice speed max_length start_page end_page background_tasks
           = [Mkdtemp d, ReadUpload, WriteBytes (pdf_path_of (temp_dir_of d) (filename pdf))]
             @ evs
             @ [Rmtree (temp_dir_of d),
                SendError (case err of ValueError m \<Rightarrow> 400 | KeyError k \<Rightarrow> 500
                           | IndexError \<Rightarrow> 500 | OtherException t \<Rightarrow> 500)]"
proof -
  have acc: "accepted_content_type (content_type pdf)"
    using assms(1) by (simp add: accepted_content_type_def)
  have C: "convert_pdf w pdf voice speed max_length start_page end_page background_tasks
             = ([Mkdtemp d, ReadUpload,
                 WriteBytes (pdf_path_of (temp_dir_of d) (filename pdf))]
                  @ evs @ [Rmtree (temp_dir_of d)],
                if is_ValueError err then HTTPException 400 (ExceptionText err)
                else HTTPException 500 FailedToGenerateAudio)"
    using acc assms(2-5) by (simp add: convert_pdf_def Let_def)
  show ?thesis unfolding handle_request_def C by (cases err) simp_all
qed

theorem failure_status_by_exception_class_witness:
  "snd (convert_pdf book_world pdf_upload (py ''alloy'') 1 1000 (Some 5) (Some 3) None)
     = HTTPException 400 (ExceptionText (ValueError (PageRangeInvalid 3))) \<and>
   snd (convert_pdf book_world pdf_upload (py ''robot'') 1 1000 None None None)
     = HTTPException 500 FailedToGenerateAudio"
proof -
  have range: "snd (convert_pdf book_world pdf_upload (py ''alloy'') 1 1000 (Some 5) (Some 3)
                      None)
                 = HTTPException 400 (ExceptionText (ValueError (PageRangeInvalid 3)))"
    using failure_status_by_exception_class [where pdf = pdf_upload and w = book_world
            and voice = "py ''alloy''" and speed = 1 and max_length = 1000
            and start_page = "Some 5" and end_page = "Some 3" and background_tasks = None
            and d = "py ''/tmp/pdf2tts_k3''" and pdf_bytes = "[37, 80, 68, 70]"
            and evs = "[DocOpen (py ''/tmp/pdf2tts_k3/book.pdf''), DocClose]"
            and err = "ValueError (PageRangeInvalid 3)"]
    by (simp add: request_facts staged_path_strs range_run)
  have voice: "snd (convert_pdf book_world pdf_upload (py ''robot'') 1 1000 None None None)
                 = HTTPException 500 FailedToGenerateAudio"
    using failure_status_by_exception_class [where pdf = pdf_upload and w = book_world
            and voice = "py ''robot''" and speed = 1 and max_length = 1000
            and start_page = None and end_page = None and background_tasks = None
            and d = "py ''/tmp/pdf2tts_k3''" and pdf_bytes = "[37, 80, 68, 70]"
            and evs = "[DocOpen (py ''/tmp/pdf2tts_k3/book.pdf''), GetText 0, GetText 1,
                        GetText 2, DocClose]"
            and err = "KeyError (py ''ROBOT'')"]
    by (simp add: request_facts staged_path_strs voice_run)
  from range voice show ?thesis by (intro conjI)
qed

text \<open>
  The claim as stated, that every failure other than the three checks gives status
  500, fails when the engine (or any other library) raises a \<open>ValueError\<close>: the
  request below reaches the engine, the engine refuses it with a \<open>ValueError\<close>, and
  the response has status 400.
\<close>

theorem engine_value_error_counterexample:
  "handle_request refusing_world pdf_upload (py ''alloy'') 1 1000 None None None
   = [Mkdtemp (py ''/tmp/pdf2tts_k3''), ReadUpload,
      WriteBytes \<lparr>root = py ''/'', parts = [py ''tmp'', py ''pdf2tts_k3'', py ''book.pdf'']\<rparr>,
      DocOpen (py ''/tmp/pdf2tts_k3/book.pdf''), GetText 0, GetText 1, GetText 2, DocClose,
      GenerateSpeech
        \<lparr>req_text = py ''one'' @ [10, 10] @ py ''two'' @ [10, 10] @ py ''three'',
         req_voice = py ''ALLOY'', req_response_format = MP3, req_speed = 1,
         req_max_length = 1000, req_preserve_words = True, req_auto_combine = True\<rparr>,
      Rmtree \<lparr>root = py ''/'', parts = [py ''tmp'', py ''pdf2tts_k3'']\<rparr>,
      SendError 400]"
  by code_simp

section \<open>Properties of the staged paths\<close>


















subsection \<open>The handler's use of the paths\<close>





subsection \<open>Claim about the staged paths\<close>




end
